theory Spec2Isabelle
  imports Main
begin

section \<open>Data model\<close>

text \<open>
  The package is a set of thin functions over Go's standard library
  (\<^verbatim>\<open>crypto/aes\<close>, \<^verbatim>\<open>crypto/cipher\<close>, \<^verbatim>\<open>crypto/rsa\<close>, \<^verbatim>\<open>crypto/sha256\<close>,
  \<^verbatim>\<open>crypto/x509\<close>, \<^verbatim>\<open>encoding/pem\<close>, \<^verbatim>\<open>io\<close>). The functions of the package are
  embedded one to one; the library calls they make are the fields of a record
  \<open>golib\<close> that every function takes as its first argument, so that whatever is
  assumed about the library is written as an explicit premise.

  A Go \<^verbatim>\<open>[]byte\<close> and a Go \<^verbatim>\<open>string\<close> are both sequences of 8-bit values and
  convert into each other unchanged; both are \<^typ>\<open>string\<close> here (a list of
  \<^typ>\<open>char\<close>, which has exactly 256 values).
\<close>

type_synonym bytes = string

text \<open>
  A Go \<^verbatim>\<open>error\<close> value. \<open>LibError\<close> is an error returned by a library call and
  handed on unchanged; the other constructors are the errors the package itself
  creates with \<^verbatim>\<open>fmt.Errorf\<close>:
  \<^item> \<open>ErrDataTooShort\<close>: \<^verbatim>\<open>"data size is less than nonceSize"\<close>;
  \<^item> \<open>ErrNotRSAPrivateKey\<close>: \<^verbatim>\<open>"Failed to type assertion to *rsa.PrivateKey"\<close>
    (\<^verbatim>\<open>"Failed to type assert to *rsa.PrivateKey"\<close> in crypto.go);
  \<^item> \<open>ErrNotRSAPublicKey\<close>: \<^verbatim>\<open>"Failed to type assert to *rsa.PublicKey"\<close>;
  \<^item> \<open>ErrUnsupportedBlockType t\<close>: \<^verbatim>\<open>"unsupported %s block.Type"\<close> with the label \<open>t\<close>.
\<close>

datatype error =
    LibError string
  | ErrDataTooShort
  | ErrNotRSAPrivateKey
  | ErrNotRSAPublicKey
  | ErrUnsupportedBlockType string

text \<open>What \<^verbatim>\<open>err.Error()\<close> returns.\<close>

fun Error_msg :: "error \<Rightarrow> string" where
  "Error_msg (LibError m) = m"
| "Error_msg ErrDataTooShort = ''data size is less than nonceSize''"
| "Error_msg ErrNotRSAPrivateKey = ''Failed to type assertion to *rsa.PrivateKey''"
| "Error_msg ErrNotRSAPublicKey = ''Failed to type assert to *rsa.PublicKey''"
| "Error_msg (ErrUnsupportedBlockType t) = ''unsupported '' @ t @ '' block.Type''"

text \<open>
  A run-time panic: it unwinds the goroutine and, unrecovered, ends the process.
  \<open>PanicValue m\<close> is an explicit \<^verbatim>\<open>panic(m)\<close>.
\<close>

datatype panic =
    NilPointerDereference
  | SliceBoundsOutOfRange
  | PanicValue string

text \<open>
  The outcome of a call: a returned value (with a nil error), a returned non-nil
  error, or a panic.
\<close>

datatype 'a result = Return 'a | Failure error | Panic panic

record rsa_PublicKey =
  pub_N :: int
  pub_E :: int

record rsa_PrivateKey =
  PublicKey :: rsa_PublicKey
  priv_D :: int
  priv_Primes :: "int list"

text \<open>
  The dynamic type behind the \<^verbatim>\<open>interface{}\<close> that \<^verbatim>\<open>x509.ParsePKCS8PrivateKey\<close> and
  \<^verbatim>\<open>x509.ParsePKIXPublicKey\<close> return: an RSA key, or a key of another algorithm
  (whose content plays no part here).
\<close>

datatype any_private_key =
    RSA_PrivateKey rsa_PrivateKey
  | ECDSA_PrivateKey bytes
  | Ed25519_PrivateKey bytes
  | ECDH_PrivateKey bytes

datatype any_public_key =
    RSA_PublicKey rsa_PublicKey
  | DSA_PublicKey bytes
  | ECDSA_PublicKey bytes
  | Ed25519_PublicKey bytes
  | ECDH_PublicKey bytes

text \<open>\<^verbatim>\<open>pem.Block\<close>: the label, the headers and the decoded body.\<close>

record pem_Block =
  block_Type :: string
  block_Headers :: "(string \<times> string) list"
  block_Bytes :: bytes

text \<open>
  A \<^verbatim>\<open>cipher.Block\<close> made by \<^verbatim>\<open>aes.NewCipher\<close> is determined by its key, and a
  \<^verbatim>\<open>cipher.AEAD\<close> made by \<^verbatim>\<open>cipher.NewGCM\<close> by its block.
\<close>

datatype cipher_Block = AES_Block bytes

datatype cipher_AEAD = GCM cipher_Block

datatype crypto_Hash = SHA256 | SHA512

section \<open>The standard library, as a parameter\<close>

text \<open>
  \<open>rnd\<close> arguments stand for \<^verbatim>\<open>rand.Reader\<close>: the bytes the reader delivers to
  this call. \<open>gcm_seal\<close> and \<open>gcm_open\<close> are the cryptographic core of
  \<^verbatim>\<open>Seal\<close> and \<^verbatim>\<open>Open\<close> (nonce, text, additional data), without the
  destination slice; \<open>gcm_Seal\<close> and \<open>gcm_Open\<close> below add it.
  \<open>rsa_VerifyPKCS1v15\<close> returns its error, \<open>None\<close> for nil.
\<close>

record golib =
  sha256_Sum256 :: "bytes \<Rightarrow> bytes"
  aes_NewCipher :: "bytes \<Rightarrow> error + cipher_Block"
  cipher_NewGCM :: "cipher_Block \<Rightarrow> error + cipher_AEAD"
  gcm_NonceSize :: "cipher_AEAD \<Rightarrow> nat"
  gcm_seal :: "cipher_AEAD \<Rightarrow> bytes \<Rightarrow> bytes \<Rightarrow> bytes \<Rightarrow> bytes"
  gcm_open :: "cipher_AEAD \<Rightarrow> bytes \<Rightarrow> bytes \<Rightarrow> bytes \<Rightarrow> error + bytes"
  pem_EncodeToMemory :: "pem_Block \<Rightarrow> bytes"
  pem_Decode :: "bytes \<Rightarrow> pem_Block option \<times> bytes"
  x509_IsEncryptedPEMBlock :: "pem_Block \<Rightarrow> bool"
  x509_DecryptPEMBlock :: "pem_Block \<Rightarrow> bytes \<Rightarrow> error + bytes"
  x509_MarshalPKCS1PrivateKey :: "rsa_PrivateKey \<Rightarrow> bytes"
  x509_ParsePKCS1PrivateKey :: "bytes \<Rightarrow> error + rsa_PrivateKey"
  x509_ParsePKCS8PrivateKey :: "bytes \<Rightarrow> error + any_private_key"
  x509_MarshalPKIXPublicKey :: "any_public_key \<Rightarrow> error + bytes"
  x509_ParsePKIXPublicKey :: "bytes \<Rightarrow> error + any_public_key"
  rsa_GenerateKey :: "bytes \<Rightarrow> int \<Rightarrow> error + rsa_PrivateKey"
  rsa_EncryptOAEP ::
    "crypto_Hash \<Rightarrow> bytes \<Rightarrow> rsa_PublicKey \<Rightarrow> bytes \<Rightarrow> bytes \<Rightarrow> error + bytes"
  rsa_DecryptOAEP ::
    "crypto_Hash \<Rightarrow> bytes \<Rightarrow> rsa_PrivateKey \<Rightarrow> bytes \<Rightarrow> bytes \<Rightarrow> error + bytes"
  rsa_SignPKCS1v15 ::
    "bytes \<Rightarrow> rsa_PrivateKey \<Rightarrow> crypto_Hash \<Rightarrow> bytes \<Rightarrow> error + bytes"
  rsa_VerifyPKCS1v15 ::
    "rsa_PublicKey \<Rightarrow> crypto_Hash \<Rightarrow> bytes \<Rightarrow> bytes \<Rightarrow> error option"

text \<open>
  \<^verbatim>\<open>io.ReadFull(r, buf)\<close> fills \<open>buf\<close> (of length \<open>n\<close>) from the reader or returns
  an error: \<^verbatim>\<open>io.EOF\<close> when nothing could be read, \<^verbatim>\<open>io.ErrUnexpectedEOF\<close> when
  the reader ended early.
\<close>

definition io_ReadFull :: "bytes \<Rightarrow> nat \<Rightarrow> error + bytes" where
  "io_ReadFull rnd n =
     (if n \<le> length rnd then Inr (take n rnd)
      else if rnd = [] then Inl (LibError ''EOF'')
      else Inl (LibError ''unexpected EOF''))"

text \<open>
  \<^verbatim>\<open>gcm.Seal(dst, nonce, plaintext, additionalData)\<close> appends the sealed text to
  \<open>dst\<close> and returns the extended slice; \<^verbatim>\<open>gcm.Open(dst, nonce, ciphertext,
  additionalData)\<close> appends the opened text to \<open>dst\<close> or returns an error. Both
  panic on a nonce whose length is not \<^verbatim>\<open>NonceSize()\<close>.
\<close>

definition gcm_Seal :: "golib \<Rightarrow> cipher_AEAD \<Rightarrow> bytes \<Rightarrow> bytes \<Rightarrow> bytes \<Rightarrow> bytes \<Rightarrow> bytes result" where
  "gcm_Seal L gcm dst nonce plaintext ad =
     (if length nonce \<noteq> gcm_NonceSize L gcm
      then Panic (PanicValue ''crypto/cipher: incorrect nonce length given to GCM'')
      else Return (dst @ gcm_seal L gcm nonce plaintext ad))"

definition gcm_Open :: "golib \<Rightarrow> cipher_AEAD \<Rightarrow> bytes \<Rightarrow> bytes \<Rightarrow> bytes \<Rightarrow> bytes \<Rightarrow> bytes result" where
  "gcm_Open L gcm dst nonce ciphertext ad =
     (if length nonce \<noteq> gcm_NonceSize L gcm
      then Panic (PanicValue ''crypto/cipher: incorrect nonce length given to GCM'')
      else (case gcm_open L gcm nonce ciphertext ad of
              Inl err \<Rightarrow> Failure err
            | Inr plaintext \<Rightarrow> Return (dst @ plaintext)))"

section \<open>Digest and symmetric cipher\<close>

text \<open>\<^verbatim>\<open>CreateHash\<close> (both files): the SHA-256 digest of the string's bytes, as a slice.\<close>

definition CreateHash :: "golib \<Rightarrow> string \<Rightarrow> bytes" where
  "CreateHash L data = sha256_Sum256 L data"

text \<open>
  \<^verbatim>\<open>EncryptAES\<close> of the file that returns \<^verbatim>\<open>([]byte, error)\<close>: every library error is
  returned. The nonce is both the destination and the nonce of \<^verbatim>\<open>Seal\<close>, so the
  result is the nonce followed by the sealed text.
\<close>

definition EncryptAES :: "golib \<Rightarrow> bytes \<Rightarrow> bytes \<Rightarrow> string \<Rightarrow> bytes result" where
  "EncryptAES L rnd data passphrase =
     (case aes_NewCipher L (CreateHash L passphrase) of
        Inl err \<Rightarrow> Failure err
      | Inr block \<Rightarrow>
     (case cipher_NewGCM L block of
        Inl err \<Rightarrow> Failure err
      | Inr gcm \<Rightarrow>
     (case io_ReadFull rnd (gcm_NonceSize L gcm) of
        Inl err \<Rightarrow> Failure err
      | Inr nonce \<Rightarrow> gcm_Seal L gcm nonce nonce data [])))"

text \<open>
  \<^verbatim>\<open>DecryptAES\<close> of the same file: the length check comes before the two slice
  expressions \<^verbatim>\<open>data[:nonceSize]\<close> and \<^verbatim>\<open>data[nonceSize:]\<close>.
\<close>

definition DecryptAES :: "golib \<Rightarrow> bytes \<Rightarrow> string \<Rightarrow> bytes result" where
  "DecryptAES L data passphrase =
     (case aes_NewCipher L (CreateHash L passphrase) of
        Inl err \<Rightarrow> Failure err
      | Inr block \<Rightarrow>
     (case cipher_NewGCM L block of
        Inl err \<Rightarrow> Failure err
      | Inr gcm \<Rightarrow>
     (let nonceSize = gcm_NonceSize L gcm in
      if length data < nonceSize then Failure ErrDataTooShort
      else gcm_Open L gcm [] (take nonceSize data) (drop nonceSize data) [])))"

text \<open>
  \<^verbatim>\<open>EncryptAES\<close> of crypto.go, which returns \<^verbatim>\<open>[]byte\<close> alone. The error of
  \<^verbatim>\<open>aes.NewCipher\<close> is discarded (\<^verbatim>\<open>block, _ := ...\<close>), so on an error \<open>block\<close> is the
  nil interface and \<^verbatim>\<open>cipher.NewGCM\<close> dereferences it; the other errors are turned
  into \<^verbatim>\<open>panic(err.Error())\<close>.
\<close>

definition crypto_go_EncryptAES :: "golib \<Rightarrow> bytes \<Rightarrow> bytes \<Rightarrow> string \<Rightarrow> bytes result" where
  "crypto_go_EncryptAES L rnd data passphrase =
     (case aes_NewCipher L (CreateHash L passphrase) of
        Inl err \<Rightarrow> Panic NilPointerDereference
      | Inr block \<Rightarrow>
     (case cipher_NewGCM L block of
        Inl err \<Rightarrow> Panic (PanicValue (Error_msg err))
      | Inr gcm \<Rightarrow>
     (case io_ReadFull rnd (gcm_NonceSize L gcm) of
        Inl err \<Rightarrow> Panic (PanicValue (Error_msg err))
      | Inr nonce \<Rightarrow> gcm_Seal L gcm nonce nonce data [])))"

text \<open>
  \<^verbatim>\<open>DecryptAES\<close> of crypto.go: no length check, so \<^verbatim>\<open>data[nonceSize:]\<close> panics when
  \<open>data\<close> is shorter than the nonce; an error of \<^verbatim>\<open>Open\<close> is turned into a panic.
\<close>

definition crypto_go_DecryptAES :: "golib \<Rightarrow> bytes \<Rightarrow> string \<Rightarrow> bytes result" where
  "crypto_go_DecryptAES L data passphrase =
     (case aes_NewCipher L (CreateHash L passphrase) of
        Inl err \<Rightarrow> Panic (PanicValue (Error_msg err))
      | Inr block \<Rightarrow>
     (case cipher_NewGCM L block of
        Inl err \<Rightarrow> Panic (PanicValue (Error_msg err))
      | Inr gcm \<Rightarrow>
     (let nonceSize = gcm_NonceSize L gcm in
      if length data < nonceSize then Panic SliceBoundsOutOfRange
      else (case gcm_Open L gcm [] (take nonceSize data) (drop nonceSize data) [] of
              Failure err \<Rightarrow> Panic (PanicValue (Error_msg err))
            | r \<Rightarrow> r))))"

section \<open>Key generation and key serialisation\<close>

text \<open>
  \<^verbatim>\<open>GenerateKeyPair\<close> (both files): \<open>bits\<close> goes to \<^verbatim>\<open>rsa.GenerateKey\<close> as it is; the
  public key returned is the \<^verbatim>\<open>PublicKey\<close> field of the private key.
\<close>

definition GenerateKeyPair :: "golib \<Rightarrow> bytes \<Rightarrow> int \<Rightarrow> (rsa_PrivateKey \<times> rsa_PublicKey) result" where
  "GenerateKeyPair L rnd bits =
     (case rsa_GenerateKey L rnd bits of
        Inl err \<Rightarrow> Failure err
      | Inr privKey \<Rightarrow> Return (privKey, PublicKey privKey))"

text \<open>\<^verbatim>\<open>PrivateKeyToBytes\<close> (both files): PKCS#1 body under the label \<^verbatim>\<open>RSA PRIVATE KEY\<close>.\<close>

definition PrivateKeyToBytes :: "golib \<Rightarrow> rsa_PrivateKey \<Rightarrow> bytes" where
  "PrivateKeyToBytes L priv =
     pem_EncodeToMemory L
       \<lparr>block_Type = ''RSA PRIVATE KEY'', block_Headers = [],
        block_Bytes = x509_MarshalPKCS1PrivateKey L priv\<rparr>"

text \<open>\<^verbatim>\<open>PublicKeyToBytes\<close> (both files): PKIX body under the label \<^verbatim>\<open>RSA PUBLIC KEY\<close>.\<close>

definition PublicKeyToBytes :: "golib \<Rightarrow> rsa_PublicKey \<Rightarrow> bytes result" where
  "PublicKeyToBytes L pub =
     (case x509_MarshalPKIXPublicKey L (RSA_PublicKey pub) of
        Inl err \<Rightarrow> Failure err
      | Inr pubASN1 \<Rightarrow>
          Return (pem_EncodeToMemory L
            \<lparr>block_Type = ''RSA PUBLIC KEY'', block_Headers = [], block_Bytes = pubASN1\<rparr>))"

text \<open>
  \<^verbatim>\<open>BytesToPrivateKey\<close> (both files; they differ in the wording of one message and in
  the use of named results). \<^verbatim>\<open>pem.Decode\<close> returns a nil block when the data holds
  no PEM block, and the next statement, \<^verbatim>\<open>b := block.Bytes\<close>, dereferences it.
  An encrypted block is decrypted with a nil password before the label is looked at.
\<close>

definition BytesToPrivateKey :: "golib \<Rightarrow> bytes \<Rightarrow> rsa_PrivateKey result" where
  "BytesToPrivateKey L data =
     (case fst (pem_Decode L data) of
        None \<Rightarrow> Panic NilPointerDereference
      | Some block \<Rightarrow>
     (case (if x509_IsEncryptedPEMBlock L block
            then x509_DecryptPEMBlock L block []
            else Inr (block_Bytes block)) of
        Inl err \<Rightarrow> Failure err
      | Inr b \<Rightarrow>
          if block_Type block = ''RSA PRIVATE KEY'' then
            (case x509_ParsePKCS1PrivateKey L b of
               Inl err \<Rightarrow> Failure err
             | Inr privKey \<Rightarrow> Return privKey)
          else if block_Type block = ''PRIVATE KEY'' then
            (case x509_ParsePKCS8PrivateKey L b of
               Inl err \<Rightarrow> Failure err
             | Inr ifc \<Rightarrow>
                 (case ifc of
                    RSA_PrivateKey privKey \<Rightarrow> Return privKey
                  | _ \<Rightarrow> Failure ErrNotRSAPrivateKey))
          else Failure (ErrUnsupportedBlockType (block_Type block))))"

text \<open>
  \<^verbatim>\<open>BytesToPublicKey\<close> (both files): the same beginning; the body is parsed as PKIX
  whatever the label is.
\<close>

definition BytesToPublicKey :: "golib \<Rightarrow> bytes \<Rightarrow> rsa_PublicKey result" where
  "BytesToPublicKey L data =
     (case fst (pem_Decode L data) of
        None \<Rightarrow> Panic NilPointerDereference
      | Some block \<Rightarrow>
     (case (if x509_IsEncryptedPEMBlock L block
            then x509_DecryptPEMBlock L block []
            else Inr (block_Bytes block)) of
        Inl err \<Rightarrow> Failure err
      | Inr b \<Rightarrow>
     (case x509_ParsePKIXPublicKey L b of
        Inl err \<Rightarrow> Failure err
      | Inr ifc \<Rightarrow>
          (case ifc of
             RSA_PublicKey pubKey \<Rightarrow> Return pubKey
           | _ \<Rightarrow> Failure ErrNotRSAPublicKey))))"

section \<open>Asymmetric cipher and signatures\<close>

text \<open>\<^verbatim>\<open>EncryptWithPublicKey\<close>, \<^verbatim>\<open>DecryptWithPrivateKey\<close> (both files): OAEP with SHA-512 and a nil label.\<close>

definition EncryptWithPublicKey :: "golib \<Rightarrow> bytes \<Rightarrow> bytes \<Rightarrow> rsa_PublicKey \<Rightarrow> bytes result" where
  "EncryptWithPublicKey L rnd msg pub =
     (case rsa_EncryptOAEP L SHA512 rnd pub msg [] of
        Inl err \<Rightarrow> Failure err
      | Inr ciphertext \<Rightarrow> Return ciphertext)"

definition DecryptWithPrivateKey :: "golib \<Rightarrow> bytes \<Rightarrow> bytes \<Rightarrow> rsa_PrivateKey \<Rightarrow> bytes result" where
  "DecryptWithPrivateKey L rnd ciphertext priv =
     (case rsa_DecryptOAEP L SHA512 rnd priv ciphertext [] of
        Inl err \<Rightarrow> Failure err
      | Inr plaintext \<Rightarrow> Return plaintext)"

text \<open>
  \<^verbatim>\<open>SignSignature\<close>, \<^verbatim>\<open>VerifySignature\<close>: PKCS#1 v1.5 over the SHA-256 digest of the
  data. \<^verbatim>\<open>VerifySignature\<close> returns the library's error, nil on success.
\<close>

definition SignSignature :: "golib \<Rightarrow> bytes \<Rightarrow> rsa_PrivateKey \<Rightarrow> bytes \<Rightarrow> bytes result" where
  "SignSignature L rnd privateKey data =
     (case rsa_SignPKCS1v15 L rnd privateKey SHA256 (sha256_Sum256 L data) of
        Inl err \<Rightarrow> Failure err
      | Inr sig \<Rightarrow> Return sig)"

definition VerifySignature :: "golib \<Rightarrow> rsa_PublicKey \<Rightarrow> bytes \<Rightarrow> bytes \<Rightarrow> error option" where
  "VerifySignature L publicKey data sig =
     rsa_VerifyPKCS1v15 L publicKey SHA256 (sha256_Sum256 L data) sig"

section \<open>What is assumed of the library\<close>

text \<open>
  The symmetric functions rely on these documented facts of the library: a
  SHA-256 digest has 32 bytes; \<^verbatim>\<open>aes.NewCipher\<close> accepts a 32-byte key;
  \<^verbatim>\<open>cipher.NewGCM\<close> accepts an AES block; the standard nonce has 12 bytes; sealing
  adds a 16-byte tag; opening what was sealed under the same key, nonce and
  additional data gives the plaintext back.
\<close>

definition aes_gcm_contract :: "golib \<Rightarrow> bool" where
  "aes_gcm_contract L \<longleftrightarrow>
     (\<forall>x. length (sha256_Sum256 L x) = 32) \<and>
     (\<forall>k. length k = 32 \<longrightarrow> aes_NewCipher L k = Inr (AES_Block k)) \<and>
     (\<forall>b. cipher_NewGCM L b = Inr (GCM b)) \<and>
     (\<forall>g. gcm_NonceSize L g = 12) \<and>
     (\<forall>g n p ad. length n = 12 \<longrightarrow> length (gcm_seal L g n p ad) = length p + 16) \<and>
     (\<forall>g n p ad. length n = 12 \<longrightarrow> gcm_open L g n (gcm_seal L g n p ad) ad = Inr p)"

text \<open>
  The key codec relies on these: a block without headers, under one of the two
  labels the package writes, is decoded from its own encoding; a block without
  headers is not an encrypted block. A key is one the codec round-trips when
  parsing its encoding gives the key back (for a public key: encoding succeeds
  too).
\<close>

definition pem_contract :: "golib \<Rightarrow> bool" where
  "pem_contract L \<longleftrightarrow>
     (\<forall>t body. t = ''RSA PRIVATE KEY'' \<or> t = ''RSA PUBLIC KEY'' \<longrightarrow>
        fst (pem_Decode L (pem_EncodeToMemory L
              \<lparr>block_Type = t, block_Headers = [], block_Bytes = body\<rparr>)) =
        Some \<lparr>block_Type = t, block_Headers = [], block_Bytes = body\<rparr>) \<and>
     (\<forall>block. block_Headers block = [] \<longrightarrow> \<not> x509_IsEncryptedPEMBlock L block)"

definition pkcs1_roundtrip :: "golib \<Rightarrow> rsa_PrivateKey \<Rightarrow> bool" where
  "pkcs1_roundtrip L k \<longleftrightarrow>
     x509_ParsePKCS1PrivateKey L (x509_MarshalPKCS1PrivateKey L k) = Inr k"

definition pkix_roundtrip :: "golib \<Rightarrow> rsa_PublicKey \<Rightarrow> bool" where
  "pkix_roundtrip L pub \<longleftrightarrow>
     (case x509_MarshalPKIXPublicKey L (RSA_PublicKey pub) of
        Inl err \<Rightarrow> False
      | Inr der \<Rightarrow> x509_ParsePKIXPublicKey L der = Inr (RSA_PublicKey pub))"

section \<open>A small executable library\<close>

text \<open>
  A stand-in for the library with the control flow of the real one and none of
  its cryptography: it lets the functions above run on concrete inputs. Digests
  are padded or cut to 32 bytes, the tag is 16 bytes taken from nonce, key and
  text, a PEM block is written as length of the label, label, a mark (\<open>-\<close> plain,
  \<open>E\<close> encrypted) and body, keys are written one byte per number.
\<close>

definition sim_Sum256 :: "bytes \<Rightarrow> bytes" where
  "sim_Sum256 x = take 32 (x @ replicate 32 (CHR 0x00))"

definition sim_NewCipher :: "bytes \<Rightarrow> error + cipher_Block" where
  "sim_NewCipher k =
     (if length k = 16 \<or> length k = 24 \<or> length k = 32 then Inr (AES_Block k)
      else Inl (LibError ''crypto/aes: invalid key size''))"

definition sim_tag :: "cipher_AEAD \<Rightarrow> bytes \<Rightarrow> bytes \<Rightarrow> bytes" where
  "sim_tag g n p =
     (case g of GCM (AES_Block k) \<Rightarrow> take 16 (n @ k @ p @ replicate 16 (CHR 0x00)))"

definition sim_seal :: "cipher_AEAD \<Rightarrow> bytes \<Rightarrow> bytes \<Rightarrow> bytes \<Rightarrow> bytes" where
  "sim_seal g n p ad = p @ sim_tag g n p"

definition sim_open :: "cipher_AEAD \<Rightarrow> bytes \<Rightarrow> bytes \<Rightarrow> bytes \<Rightarrow> error + bytes" where
  "sim_open g n c ad =
     (if length c < 16 then Inl (LibError ''cipher: message authentication failed'')
      else if drop (length c - 16) c = sim_tag g n (take (length c - 16) c)
      then Inr (take (length c - 16) c)
      else Inl (LibError ''cipher: message authentication failed''))"

definition sim_EncodeToMemory :: "pem_Block \<Rightarrow> bytes" where
  "sim_EncodeToMemory b =
     char_of (length (block_Type b)) # block_Type b @
     (if block_Headers b = [] then ''-'' else ''E'') @ block_Bytes b"

definition sim_Decode :: "bytes \<Rightarrow> pem_Block option \<times> bytes" where
  "sim_Decode data =
     (case data of
        [] \<Rightarrow> (None, data)
      | c # rest \<Rightarrow>
          let n = of_char c in
          if length rest \<le> n then (None, data)
          else if rest ! n = CHR ''-'' then
            (Some \<lparr>block_Type = take n rest, block_Headers = [],
                   block_Bytes = drop (Suc n) rest\<rparr>, [])
          else if rest ! n = CHR ''E'' then
            (Some \<lparr>block_Type = take n rest,
                   block_Headers =
                     [(''Proc-Type'', ''4,ENCRYPTED''),
                      (''DEK-Info'', ''AES-128-CBC,00112233445566778899AABBCCDDEEFF'')],
                   block_Bytes = drop (Suc n) rest\<rparr>, [])
          else (None, data))"

definition sim_IsEncryptedPEMBlock :: "pem_Block \<Rightarrow> bool" where
  "sim_IsEncryptedPEMBlock b \<longleftrightarrow> map_of (block_Headers b) ''DEK-Info'' \<noteq> None"

definition sim_DecryptPEMBlock :: "pem_Block \<Rightarrow> bytes \<Rightarrow> error + bytes" where
  "sim_DecryptPEMBlock b password =
     (case map_of (block_Headers b) ''DEK-Info'' of
        None \<Rightarrow> Inl (LibError ''x509: no DEK-Info header in block'')
      | Some dek \<Rightarrow>
          if CHR '','' \<in> set dek then Inl (LibError ''x509: decryption password incorrect'')
          else Inl (LibError ''x509: malformed DEK-Info header''))"

definition sim_MarshalPKCS1PrivateKey :: "rsa_PrivateKey \<Rightarrow> bytes" where
  "sim_MarshalPKCS1PrivateKey k =
     char_of (pub_N (PublicKey k)) # char_of (pub_E (PublicKey k)) # char_of (priv_D k) #
     map char_of (priv_Primes k)"

definition sim_ParsePKCS1PrivateKey :: "bytes \<Rightarrow> error + rsa_PrivateKey" where
  "sim_ParsePKCS1PrivateKey b =
     (case b of
        n # e # d # ps \<Rightarrow>
          Inr \<lparr>PublicKey = \<lparr>pub_N = of_char n, pub_E = of_char e\<rparr>,
               priv_D = of_char d, priv_Primes = map of_char ps\<rparr>
      | _ \<Rightarrow> Inl (LibError ''x509: failed to parse private key''))"

definition sim_ParsePKCS8PrivateKey :: "bytes \<Rightarrow> error + any_private_key" where
  "sim_ParsePKCS8PrivateKey b =
     (case b of
        [] \<Rightarrow> Inl (LibError ''x509: failed to parse private key'')
      | c # rest \<Rightarrow>
          if c = CHR ''R'' then
            (case sim_ParsePKCS1PrivateKey rest of
               Inl err \<Rightarrow> Inl err
             | Inr k \<Rightarrow> Inr (RSA_PrivateKey k))
          else if c = CHR ''C'' then Inr (ECDSA_PrivateKey rest)
          else Inl (LibError ''x509: failed to parse private key''))"

definition sim_MarshalPKIXPublicKey :: "any_public_key \<Rightarrow> error + bytes" where
  "sim_MarshalPKIXPublicKey k =
     (case k of
        RSA_PublicKey pub \<Rightarrow> Inr [CHR ''R'', char_of (pub_N pub), char_of (pub_E pub)]
      | ECDSA_PublicKey b \<Rightarrow> Inr (CHR ''C'' # b)
      | _ \<Rightarrow> Inl (LibError ''x509: unsupported public key type''))"

definition sim_ParsePKIXPublicKey :: "bytes \<Rightarrow> error + any_public_key" where
  "sim_ParsePKIXPublicKey b =
     (case b of
        [] \<Rightarrow> Inl (LibError ''x509: failed to parse public key'')
      | c # rest \<Rightarrow>
          if c = CHR ''R'' then
            (case rest of
               [n, e] \<Rightarrow> Inr (RSA_PublicKey \<lparr>pub_N = of_char n, pub_E = of_char e\<rparr>)
             | _ \<Rightarrow> Inl (LibError ''x509: failed to parse public key''))
          else if c = CHR ''C'' then Inr (ECDSA_PublicKey rest)
          else Inl (LibError ''x509: failed to parse public key''))"

definition sim_key :: rsa_PrivateKey where
  "sim_key = \<lparr>PublicKey = \<lparr>pub_N = 187, pub_E = 7\<rparr>, priv_D = 23, priv_Primes = [11, 17]\<rparr>"

definition sim_GenerateKey :: "bytes \<Rightarrow> int \<Rightarrow> error + rsa_PrivateKey" where
  "sim_GenerateKey rnd bits =
     (if bits < 1024 then Inl (LibError ''crypto/rsa: key size too small'')
      else Inr sim_key)"

definition sim_EncryptOAEP ::
  "crypto_Hash \<Rightarrow> bytes \<Rightarrow> rsa_PublicKey \<Rightarrow> bytes \<Rightarrow> bytes \<Rightarrow> error + bytes" where
  "sim_EncryptOAEP h rnd pub msg label = Inr (char_of (pub_N pub) # msg)"

definition sim_DecryptOAEP ::
  "crypto_Hash \<Rightarrow> bytes \<Rightarrow> rsa_PrivateKey \<Rightarrow> bytes \<Rightarrow> bytes \<Rightarrow> error + bytes" where
  "sim_DecryptOAEP h rnd priv c label =
     (case c of
        [] \<Rightarrow> Inl (LibError ''crypto/rsa: decryption error'')
      | t # m \<Rightarrow>
          if t = char_of (pub_N (PublicKey priv)) then Inr m
          else Inl (LibError ''crypto/rsa: decryption error''))"

definition sim_SignPKCS1v15 ::
  "bytes \<Rightarrow> rsa_PrivateKey \<Rightarrow> crypto_Hash \<Rightarrow> bytes \<Rightarrow> error + bytes" where
  "sim_SignPKCS1v15 rnd priv h digest = Inr (char_of (pub_N (PublicKey priv)) # digest)"

definition sim_VerifyPKCS1v15 ::
  "rsa_PublicKey \<Rightarrow> crypto_Hash \<Rightarrow> bytes \<Rightarrow> bytes \<Rightarrow> error option" where
  "sim_VerifyPKCS1v15 pub h digest sig =
     (if sig = char_of (pub_N pub) # digest then None
      else Some (LibError ''crypto/rsa: verification error''))"

definition sim_lib :: golib where
  "sim_lib =
     \<lparr>sha256_Sum256 = sim_Sum256,
      aes_NewCipher = sim_NewCipher,
      cipher_NewGCM = (\<lambda>b. Inr (GCM b)),
      gcm_NonceSize = (\<lambda>g. 12),
      gcm_seal = sim_seal,
      gcm_open = sim_open,
      pem_EncodeToMemory = sim_EncodeToMemory,
      pem_Decode = sim_Decode,
      x509_IsEncryptedPEMBlock = sim_IsEncryptedPEMBlock,
      x509_DecryptPEMBlock = sim_DecryptPEMBlock,
      x509_MarshalPKCS1PrivateKey = sim_MarshalPKCS1PrivateKey,
      x509_ParsePKCS1PrivateKey = sim_ParsePKCS1PrivateKey,
      x509_ParsePKCS8PrivateKey = sim_ParsePKCS8PrivateKey,
      x509_MarshalPKIXPublicKey = sim_MarshalPKIXPublicKey,
      x509_ParsePKIXPublicKey = sim_ParsePKIXPublicKey,
      rsa_GenerateKey = sim_GenerateKey,
      rsa_EncryptOAEP = sim_EncryptOAEP,
      rsa_DecryptOAEP = sim_DecryptOAEP,
      rsa_SignPKCS1v15 = sim_SignPKCS1v15,
      rsa_VerifyPKCS1v15 = sim_VerifyPKCS1v15\<rparr>"

section \<open>The stand-in library meets the assumptions\<close>

lemma length_sim_tag: "length (sim_tag g n p) = 16"
  by (auto simp add: sim_tag_def min_def split: cipher_AEAD.split cipher_Block.split)

lemma length_sim_seal: "length (sim_seal g n p ad) = length p + 16"
  by (simp add: sim_seal_def length_sim_tag)

lemma sim_open_seal: "sim_open g n (sim_seal g n p ad) ad = Inr p"
  by (simp add: sim_open_def sim_seal_def length_sim_tag)

lemma length_sim_Sum256: "length (sim_Sum256 x) = 32"
  by (auto simp add: sim_Sum256_def min_def)

lemma sim_lib_aes_gcm: "aes_gcm_contract sim_lib"
  by (simp add: aes_gcm_contract_def sim_lib_def length_sim_Sum256 sim_NewCipher_def
      sim_open_seal length_sim_seal)

lemma sim_Decode_Encode:
  "length (block_Type b) < 256 \<Longrightarrow> block_Headers b = [] \<Longrightarrow>
   sim_Decode (sim_EncodeToMemory b) = (Some b, [])"
  by (simp add: sim_Decode_def sim_EncodeToMemory_def Let_def nth_append)

lemma sim_lib_pem: "pem_contract sim_lib"
  by (auto simp add: pem_contract_def sim_lib_def sim_Decode_Encode sim_IsEncryptedPEMBlock_def)

lemma sim_lib_pkcs1: "pkcs1_roundtrip sim_lib sim_key"
  by (simp add: pkcs1_roundtrip_def sim_lib_def sim_key_def sim_MarshalPKCS1PrivateKey_def
      sim_ParsePKCS1PrivateKey_def)

lemma sim_lib_pkix: "pkix_roundtrip sim_lib (PublicKey sim_key)"
  by (simp add: pkix_roundtrip_def sim_lib_def sim_key_def sim_MarshalPKIXPublicKey_def
      sim_ParsePKIXPublicKey_def)

section \<open>Symmetric cipher\<close>

lemma aes_gcm_setup:
  assumes "aes_gcm_contract L"
  shows "aes_NewCipher L (CreateHash L pw) = Inr (AES_Block (CreateHash L pw))"
    and "cipher_NewGCM L b = Inr (GCM b)"
    and "gcm_NonceSize L g = 12"
  using assms by (simp_all add: aes_gcm_contract_def CreateHash_def)

text \<open>
  Claim C1. For every plaintext and passphrase, decrypting what \<^verbatim>\<open>EncryptAES\<close>
  returned, with the same passphrase, returns the plaintext. The random source
  is an input that delivers at least the 12 bytes of the nonce; the ciphertext
  is the nonce followed by the sealed text. It holds for the functions of both
  files.
\<close>

theorem EncryptAES_DecryptAES_roundtrip:
  assumes "aes_gcm_contract L" and "12 \<le> length rnd"
  shows "\<exists>nonce sealed.
           nonce = take 12 rnd \<and>
           sealed = gcm_seal L (GCM (AES_Block (CreateHash L pw))) nonce p [] \<and>
           EncryptAES L rnd p pw = Return (nonce @ sealed) \<and>
           DecryptAES L (nonce @ sealed) pw = Return p \<and>
           crypto_go_EncryptAES L rnd p pw = Return (nonce @ sealed) \<and>
           crypto_go_DecryptAES L (nonce @ sealed) pw = Return p"
proof -
  let ?g = "GCM (AES_Block (CreateHash L pw))"
  let ?nonce = "take 12 rnd"
  let ?sealed = "gcm_seal L ?g ?nonce p []"
  have len: "length ?nonce = 12" using assms(2) by simp
  have rd: "io_ReadFull rnd 12 = Inr ?nonce" using assms(2) by (simp add: io_ReadFull_def)
  have opn: "gcm_open L ?g ?nonce ?sealed [] = Inr p"
    using assms(1) len unfolding aes_gcm_contract_def by blast
  have seal: "gcm_Seal L ?g ?nonce ?nonce p [] = Return (?nonce @ ?sealed)"
    using len by (simp add: gcm_Seal_def aes_gcm_setup [OF assms(1)])
  have e1: "EncryptAES L rnd p pw = Return (?nonce @ ?sealed)"
    by (simp add: EncryptAES_def aes_gcm_setup [OF assms(1)] rd seal)
  have e2: "crypto_go_EncryptAES L rnd p pw = Return (?nonce @ ?sealed)"
    by (simp add: crypto_go_EncryptAES_def aes_gcm_setup [OF assms(1)] rd seal)
  have opn': "gcm_Open L ?g [] ?nonce ?sealed [] = Return p"
    using len by (simp add: gcm_Open_def aes_gcm_setup [OF assms(1)] opn)
  have d1: "DecryptAES L (?nonce @ ?sealed) pw = Return p"
    using len opn' by (simp add: DecryptAES_def aes_gcm_setup [OF assms(1)])
  have d2: "crypto_go_DecryptAES L (?nonce @ ?sealed) pw = Return p"
    using len opn' by (simp add: crypto_go_DecryptAES_def aes_gcm_setup [OF assms(1)])
  show ?thesis using e1 e2 d1 d2 by blast
qed

theorem EncryptAES_DecryptAES_roundtrip_witness:
  "\<exists>c. EncryptAES sim_lib ''0123456789abcdef'' ''hello'' ''pw'' = Return c \<and>
       DecryptAES sim_lib c ''pw'' = Return ''hello'' \<and>
       crypto_go_EncryptAES sim_lib ''0123456789abcdef'' ''hello'' ''pw'' = Return c \<and>
       crypto_go_DecryptAES sim_lib c ''pw'' = Return ''hello''"
  using EncryptAES_DecryptAES_roundtrip
    [OF sim_lib_aes_gcm, where rnd = "''0123456789abcdef''" and p = "''hello''" and pw = "''pw''"]
  by auto

text \<open>
  Claim C10. The ciphertext \<^verbatim>\<open>EncryptAES\<close> returns has \<open>length p + 28\<close> bytes: the
  12 bytes of the nonce, then the sealed text of \<open>length p + 16\<close> bytes (the
  text and its 16-byte tag). It holds for the functions of both files.
\<close>

theorem EncryptAES_length:
  assumes "aes_gcm_contract L" and "12 \<le> length rnd"
  shows "\<exists>c. EncryptAES L rnd p pw = Return c \<and>
             crypto_go_EncryptAES L rnd p pw = Return c \<and>
             length c = length p + 28 \<and>
             length (take 12 c) = 12 \<and> take 12 c = take 12 rnd \<and>
             length (drop 12 c) = length p + 16"
proof -
  let ?g = "GCM (AES_Block (CreateHash L pw))"
  let ?nonce = "take 12 rnd"
  let ?sealed = "gcm_seal L ?g ?nonce p []"
  have len: "length ?nonce = 12" using assms(2) by simp
  have slen: "length ?sealed = length p + 16"
    using assms(1) len unfolding aes_gcm_contract_def by blast
  have rd: "io_ReadFull rnd 12 = Inr ?nonce" using assms(2) by (simp add: io_ReadFull_def)
  have seal: "gcm_Seal L ?g ?nonce ?nonce p [] = Return (?nonce @ ?sealed)"
    using len by (simp add: gcm_Seal_def aes_gcm_setup [OF assms(1)])
  have e1: "EncryptAES L rnd p pw = Return (?nonce @ ?sealed)"
    by (simp add: EncryptAES_def aes_gcm_setup [OF assms(1)] rd seal)
  have e2: "crypto_go_EncryptAES L rnd p pw = Return (?nonce @ ?sealed)"
    by (simp add: crypto_go_EncryptAES_def aes_gcm_setup [OF assms(1)] rd seal)
  have "length (?nonce @ ?sealed) = length p + 28" using len slen by simp
  moreover have "take 12 (?nonce @ ?sealed) = ?nonce" using len by simp
  moreover have "length (drop 12 (?nonce @ ?sealed)) = length p + 16" using len slen by simp
  ultimately show ?thesis using e1 e2 len by auto
qed

theorem EncryptAES_length_witness:
  "\<exists>c. EncryptAES sim_lib ''0123456789abcdef'' ''hello'' ''pw'' = Return c \<and> length c = 33"
  using EncryptAES_length
    [OF sim_lib_aes_gcm, where rnd = "''0123456789abcdef''" and p = "''hello''" and pw = "''pw''"]
  by auto

text \<open>
  \<^verbatim>\<open>DecryptAES\<close> with error results: data shorter than the nonce is refused with
  the package's own error; longer data gets the result of \<^verbatim>\<open>Open\<close> on the first
  12 bytes as nonce and the rest as sealed text, so a tag that does not verify
  comes back as the error of \<^verbatim>\<open>Open\<close>.
\<close>

lemma DecryptAES_short:
  assumes "aes_gcm_contract L" and "length c < 12"
  shows "DecryptAES L c pw = Failure ErrDataTooShort"
  using assms(2) by (simp add: DecryptAES_def aes_gcm_setup [OF assms(1)])

lemma DecryptAES_long:
  assumes "aes_gcm_contract L" and "12 \<le> length c"
  shows "DecryptAES L c pw =
     (case gcm_open L (GCM (AES_Block (CreateHash L pw))) (take 12 c) (drop 12 c) [] of
        Inl err \<Rightarrow> Failure err | Inr p \<Rightarrow> Return p)"
  using assms(2)
  by (simp add: DecryptAES_def aes_gcm_setup [OF assms(1)] gcm_Open_def split: sum.splits)

text \<open>
  Claim C3. \<^verbatim>\<open>DecryptAES\<close> is to fail with an error when the data is shorter than
  the 12-byte nonce, and with the authentication error when the tag does not
  verify. The function that returns \<^verbatim>\<open>([]byte, error)\<close> does so (the two lemmas
  above). \<^verbatim>\<open>DecryptAES\<close> of crypto.go does not: on data shorter than the nonce
  the slice expression panics, and an error of \<^verbatim>\<open>Open\<close> is raised as a panic.
\<close>

theorem crypto_go_DecryptAES_panics:
  assumes "aes_gcm_contract L"
  shows "(length c < 12 \<longrightarrow> crypto_go_DecryptAES L c pw = Panic SliceBoundsOutOfRange) \<and>
         (12 \<le> length c \<longrightarrow>
          gcm_open L (GCM (AES_Block (CreateHash L pw))) (take 12 c) (drop 12 c) [] = Inl err \<longrightarrow>
          crypto_go_DecryptAES L c pw = Panic (PanicValue (Error_msg err)))"
  by (simp add: crypto_go_DecryptAES_def aes_gcm_setup [OF assms] gcm_Open_def)

lemma sim_open_tampered:
  "gcm_open sim_lib (GCM (AES_Block (CreateHash sim_lib ''pw'')))
     (take 12 ''0123456789abhello0123456789abpX'')
     (drop 12 ''0123456789abhello0123456789abpX'') [] =
   Inl (LibError ''cipher: message authentication failed'')"
  by (simp add: sim_lib_def sim_open_def sim_tag_def CreateHash_def sim_Sum256_def)

theorem crypto_go_DecryptAES_panics_witness:
  "crypto_go_DecryptAES sim_lib ''short'' ''pw'' = Panic SliceBoundsOutOfRange \<and>
   DecryptAES sim_lib ''short'' ''pw'' = Failure ErrDataTooShort \<and>
   crypto_go_DecryptAES sim_lib ''0123456789abhello0123456789abpX'' ''pw'' =
     Panic (PanicValue ''cipher: message authentication failed'') \<and>
   DecryptAES sim_lib ''0123456789abhello0123456789abpX'' ''pw'' =
     Failure (LibError ''cipher: message authentication failed'')"
  using crypto_go_DecryptAES_panics [OF sim_lib_aes_gcm, of "''short''" "''pw''"]
    crypto_go_DecryptAES_panics
      [OF sim_lib_aes_gcm, of "''0123456789abhello0123456789abpX''" "''pw''"
        "LibError ''cipher: message authentication failed''"]
    DecryptAES_short [OF sim_lib_aes_gcm, of "''short''" "''pw''"]
    DecryptAES_long [OF sim_lib_aes_gcm, of "''0123456789abhello0123456789abpX''" "''pw''"]
    sim_open_tampered
  by simp

section \<open>Key decoding\<close>

text \<open>
  Claim C2. No operation is to panic on invalid input. Both key decoders do:
  when the data holds no PEM block, \<^verbatim>\<open>pem.Decode\<close> returns a nil block and
  \<^verbatim>\<open>block.Bytes\<close> dereferences it.
\<close>

theorem BytesToKey_nil_block_panics:
  assumes "fst (pem_Decode L data) = None"
  shows "BytesToPrivateKey L data = Panic NilPointerDereference \<and>
         BytesToPublicKey L data = Panic NilPointerDereference"
  using assms by (simp add: BytesToPrivateKey_def BytesToPublicKey_def)

lemma sim_Decode_hello: "fst (pem_Decode sim_lib ''hello'') = None"
  by (simp add: sim_lib_def sim_Decode_def)

theorem BytesToKey_nil_block_panics_witness:
  "fst (pem_Decode sim_lib ''hello'') = None \<and>
   BytesToPrivateKey sim_lib ''hello'' = Panic NilPointerDereference \<and>
   BytesToPublicKey sim_lib ''hello'' = Panic NilPointerDereference"
  using BytesToKey_nil_block_panics [OF sim_Decode_hello] sim_Decode_hello by simp

lemma pem_decode_own:
  assumes "pem_contract L" and "t = ''RSA PRIVATE KEY'' \<or> t = ''RSA PUBLIC KEY''"
  shows "fst (pem_Decode L (pem_EncodeToMemory L
              \<lparr>block_Type = t, block_Headers = [], block_Bytes = body\<rparr>)) =
        Some \<lparr>block_Type = t, block_Headers = [], block_Bytes = body\<rparr>"
  using assms unfolding pem_contract_def by blast

lemma pem_plain_not_encrypted:
  assumes "pem_contract L"
  shows "\<not> x509_IsEncryptedPEMBlock L \<lparr>block_Type = t, block_Headers = [], block_Bytes = body\<rparr>"
  using assms unfolding pem_contract_def by simp

text \<open>
  Claim C4. For a key pair the codec round-trips, decoding the encoding of the
  private key returns the key, and encoding the public half succeeds and
  decodes to the public half.
\<close>

theorem key_serialisation_roundtrip:
  assumes "pem_contract L" and "pkcs1_roundtrip L k" and "pkix_roundtrip L (PublicKey k)"
  shows "BytesToPrivateKey L (PrivateKeyToBytes L k) = Return k \<and>
         (\<exists>bs. PublicKeyToBytes L (PublicKey k) = Return bs \<and>
               BytesToPublicKey L bs = Return (PublicKey k))"
proof
  show "BytesToPrivateKey L (PrivateKeyToBytes L k) = Return k"
    using assms(2)
    by (simp add: BytesToPrivateKey_def PrivateKeyToBytes_def pem_decode_own [OF assms(1)]
        pem_plain_not_encrypted [OF assms(1)] pkcs1_roundtrip_def)
next
  from assms(3) obtain der where
    m: "x509_MarshalPKIXPublicKey L (RSA_PublicKey (PublicKey k)) = Inr der" and
    p: "x509_ParsePKIXPublicKey L der = Inr (RSA_PublicKey (PublicKey k))"
    by (auto simp add: pkix_roundtrip_def split: sum.splits)
  let ?bs = "pem_EncodeToMemory L
     \<lparr>block_Type = ''RSA PUBLIC KEY'', block_Headers = [], block_Bytes = der\<rparr>"
  have "PublicKeyToBytes L (PublicKey k) = Return ?bs"
    by (simp add: PublicKeyToBytes_def m)
  moreover have "BytesToPublicKey L ?bs = Return (PublicKey k)"
    by (simp add: BytesToPublicKey_def pem_decode_own [OF assms(1)]
        pem_plain_not_encrypted [OF assms(1)] p)
  ultimately show "\<exists>bs. PublicKeyToBytes L (PublicKey k) = Return bs \<and>
               BytesToPublicKey L bs = Return (PublicKey k)" by blast
qed

theorem key_serialisation_roundtrip_witness:
  "BytesToPrivateKey sim_lib (PrivateKeyToBytes sim_lib sim_key) = Return sim_key \<and>
   (\<exists>bs. PublicKeyToBytes sim_lib (PublicKey sim_key) = Return bs \<and>
         BytesToPublicKey sim_lib bs = Return (PublicKey sim_key))"
  using key_serialisation_roundtrip [OF sim_lib_pem sim_lib_pkcs1 sim_lib_pkix] .

text \<open>
  Claim C5, as the code has it. Once the envelope is decoded and its body is at
  hand (the body itself, or the decrypted body of an envelope marked as
  encrypted), the label alone selects what happens: \<^verbatim>\<open>RSA PRIVATE KEY\<close> is parsed
  as PKCS#1, \<^verbatim>\<open>PRIVATE KEY\<close> as PKCS#8 with a check that the key is an RSA key,
  any other label gives the unsupported-label error with no parse. An envelope
  marked as encrypted whose decryption fails gives the decryption error,
  whatever its label.
\<close>

theorem BytesToPrivateKey_dispatch:
  assumes "fst (pem_Decode L data) = Some block"
  shows "(\<forall>b. (if x509_IsEncryptedPEMBlock L block then x509_DecryptPEMBlock L block []
               else Inr (block_Bytes block)) = Inr b \<longrightarrow>
            (block_Type block = ''RSA PRIVATE KEY'' \<longrightarrow>
               BytesToPrivateKey L data =
                 (case x509_ParsePKCS1PrivateKey L b of
                    Inl err \<Rightarrow> Failure err
                  | Inr k \<Rightarrow> Return k)) \<and>
            (block_Type block = ''PRIVATE KEY'' \<longrightarrow>
               BytesToPrivateKey L data =
                 (case x509_ParsePKCS8PrivateKey L b of
                    Inl err \<Rightarrow> Failure err
                  | Inr (RSA_PrivateKey k) \<Rightarrow> Return k
                  | Inr _ \<Rightarrow> Failure ErrNotRSAPrivateKey)) \<and>
            (block_Type block \<noteq> ''RSA PRIVATE KEY'' \<and> block_Type block \<noteq> ''PRIVATE KEY'' \<longrightarrow>
               BytesToPrivateKey L data = Failure (ErrUnsupportedBlockType (block_Type block)))) \<and>
         (\<forall>err. x509_IsEncryptedPEMBlock L block \<and> x509_DecryptPEMBlock L block [] = Inl err \<longrightarrow>
            BytesToPrivateKey L data = Failure err)"
  using assms by (simp add: BytesToPrivateKey_def)

lemma sim_Decode_pkcs8:
  "fst (pem_Decode sim_lib (CHR 0x0B # ''PRIVATE KEY-R'' @ [CHR 0xBB, CHR 0x07, CHR 0x17, CHR 0x0B, CHR 0x11])) =
   Some \<lparr>block_Type = ''PRIVATE KEY'', block_Headers = [],
         block_Bytes = ''R'' @ [CHR 0xBB, CHR 0x07, CHR 0x17, CHR 0x0B, CHR 0x11]\<rparr>"
  by (simp add: sim_lib_def sim_Decode_def)

lemma sim_Decode_foo:
  "fst (pem_Decode sim_lib (CHR 0x03 # ''FOO-abc'')) =
   Some \<lparr>block_Type = ''FOO'', block_Headers = [], block_Bytes = ''abc''\<rparr>"
  by (simp add: sim_lib_def sim_Decode_def)

theorem BytesToPrivateKey_dispatch_witness:
  "BytesToPrivateKey sim_lib
     (CHR 0x0B # ''PRIVATE KEY-R'' @ [CHR 0xBB, CHR 0x07, CHR 0x17, CHR 0x0B, CHR 0x11]) =
     Return sim_key \<and>
   BytesToPrivateKey sim_lib (CHR 0x03 # ''FOO-abc'') = Failure (ErrUnsupportedBlockType ''FOO'')"
  using BytesToPrivateKey_dispatch [OF sim_Decode_pkcs8] BytesToPrivateKey_dispatch [OF sim_Decode_foo]
  by (simp add: sim_lib_def sim_IsEncryptedPEMBlock_def sim_ParsePKCS8PrivateKey_def
      sim_ParsePKCS1PrivateKey_def sim_key_def)

text \<open>
  The claim as stated fails on an envelope marked as encrypted under a label
  that is neither of the two: decryption with the nil password is tried first
  and its error is what the caller gets.
\<close>

theorem BytesToPrivateKey_encrypted_other_label:
  "map_option block_Type (fst (pem_Decode sim_lib (CHR 0x03 # ''FOOEabc''))) = Some ''FOO'' \<and>
   BytesToPrivateKey sim_lib (CHR 0x03 # ''FOOEabc'') =
     Failure (LibError ''x509: decryption password incorrect'') \<and>
   BytesToPrivateKey sim_lib (CHR 0x03 # ''FOOEabc'') \<noteq> Failure (ErrUnsupportedBlockType ''FOO'')"
  by (simp add: BytesToPrivateKey_def sim_lib_def sim_Decode_def sim_IsEncryptedPEMBlock_def
      sim_DecryptPEMBlock_def)

text \<open>
  Claim C6, as the code has it. \<^verbatim>\<open>BytesToPublicKey\<close> never looks at the label:
  with the envelope decoded and its body at hand, the outcome is that of the
  PKIX parse of the body: its error, the RSA key, or the type error for a key
  of another algorithm.
\<close>

theorem BytesToPublicKey_ignores_label:
  assumes "fst (pem_Decode L data) = Some block"
      and "(if x509_IsEncryptedPEMBlock L block then x509_DecryptPEMBlock L block []
            else Inr (block_Bytes block)) = Inr b"
  shows "(\<forall>err. x509_ParsePKIXPublicKey L b = Inl err \<longrightarrow> BytesToPublicKey L data = Failure err) \<and>
         (\<forall>pub. x509_ParsePKIXPublicKey L b = Inr (RSA_PublicKey pub) \<longrightarrow>
            BytesToPublicKey L data = Return pub) \<and>
         (\<forall>k. x509_ParsePKIXPublicKey L b = Inr k \<and> (\<forall>pub. k \<noteq> RSA_PublicKey pub) \<longrightarrow>
            BytesToPublicKey L data = Failure ErrNotRSAPublicKey)"
  using assms by (auto simp add: BytesToPublicKey_def split: any_public_key.splits)

lemma sim_Decode_ec_pub:
  "fst (pem_Decode sim_lib (CHR 0x0E # ''RSA PUBLIC KEY-Cabc'')) =
   Some \<lparr>block_Type = ''RSA PUBLIC KEY'', block_Headers = [], block_Bytes = ''Cabc''\<rparr>"
  by (simp add: sim_lib_def sim_Decode_def)

theorem BytesToPublicKey_ignores_label_witness:
  "BytesToPublicKey sim_lib (CHR 0x0E # ''RSA PUBLIC KEY-Cabc'') = Failure ErrNotRSAPublicKey"
  using BytesToPublicKey_ignores_label [OF sim_Decode_ec_pub, of "''Cabc''"]
  by (simp add: sim_lib_def sim_IsEncryptedPEMBlock_def sim_ParsePKIXPublicKey_def)

text \<open>
  The claim as stated fails: an envelope labelled \<^verbatim>\<open>PUBLIC KEY\<close> with an RSA key
  in it is decoded.
\<close>

theorem BytesToPublicKey_other_label_accepted:
  "map_option block_Type
     (fst (pem_Decode sim_lib (CHR 0x0A # ''PUBLIC KEY-R'' @ [CHR 0xBB, CHR 0x07]))) =
     Some ''PUBLIC KEY'' \<and>
   BytesToPublicKey sim_lib (CHR 0x0A # ''PUBLIC KEY-R'' @ [CHR 0xBB, CHR 0x07]) =
     Return \<lparr>pub_N = 187, pub_E = 7\<rparr>"
  by (simp add: BytesToPublicKey_def sim_lib_def sim_Decode_def sim_IsEncryptedPEMBlock_def
      sim_ParsePKIXPublicKey_def)

section \<open>Key generation\<close>

text \<open>
  Claim C7, as the code has it. \<^verbatim>\<open>GenerateKeyPair\<close> has no minimum of its own: for
  every \<open>bits\<close> it fails exactly when \<^verbatim>\<open>rsa.GenerateKey\<close> fails, with that error,
  and otherwise returns the generated key with its public half; it never
  panics.
\<close>

theorem GenerateKeyPair_no_floor:
  "(GenerateKeyPair L rnd bits = Failure err \<longleftrightarrow> rsa_GenerateKey L rnd bits = Inl err) \<and>
   (GenerateKeyPair L rnd bits = Return (k, pub) \<longleftrightarrow>
      rsa_GenerateKey L rnd bits = Inr k \<and> pub = PublicKey k) \<and>
   GenerateKeyPair L rnd bits \<noteq> Panic p"
  by (auto simp add: GenerateKeyPair_def split: sum.splits)

text \<open>
  The claim as stated fails at 1024 bits, a size the library accepts.
\<close>

theorem GenerateKeyPair_1024_returns:
  "(1024::int) < 2048 \<and>
   GenerateKeyPair sim_lib [] 1024 = Return (sim_key, PublicKey sim_key)"
  by (simp add: GenerateKeyPair_def sim_lib_def sim_GenerateKey_def)

section \<open>Asymmetric cipher and signatures\<close>

text \<open>
  Both OAEP functions pass SHA-512 and the nil label, so a ciphertext the
  library decrypts is decrypted by the pair of functions.
\<close>

lemma EncryptWithPublicKey_DecryptWithPrivateKey:
  assumes "rsa_EncryptOAEP L SHA512 rnd pub msg [] = Inr c"
      and "rsa_DecryptOAEP L SHA512 rnd' priv c [] = Inr msg"
  shows "EncryptWithPublicKey L rnd msg pub = Return c \<and>
         DecryptWithPrivateKey L rnd' c priv = Return msg"
  using assms by (simp add: EncryptWithPublicKey_def DecryptWithPrivateKey_def)

lemma DecryptWithPrivateKey_error:
  assumes "rsa_DecryptOAEP L SHA512 rnd priv c [] = Inl err"
  shows "DecryptWithPrivateKey L rnd c priv = Failure err"
  using assms by (simp add: DecryptWithPrivateKey_def)

text \<open>
  Signing and verifying use the same digest and the same hash identifier, so a
  signature the library verifies for the digest is verified by the pair of
  functions. Verification sees the data through its digest only.
\<close>

lemma SignSignature_VerifySignature:
  assumes "rsa_SignPKCS1v15 L rnd priv SHA256 (sha256_Sum256 L data) = Inr sig"
      and "rsa_VerifyPKCS1v15 L pub SHA256 (sha256_Sum256 L data) sig = None"
  shows "SignSignature L rnd priv data = Return sig \<and> VerifySignature L pub data sig = None"
  using assms by (simp add: SignSignature_def VerifySignature_def)

lemma VerifySignature_digest:
  assumes "sha256_Sum256 L data' = sha256_Sum256 L data"
  shows "VerifySignature L pub data' sig = VerifySignature L pub data sig"
  using assms by (simp add: VerifySignature_def)

end
